theory Spec2Isabelle
  imports Main
begin

section \<open>JavaScript values\<close>

text \<open>
  The payloads the adapter inspects at run time (chunk content, tool-call arguments,
  metadata flags, finish reason) are typed \<open>any\<close> or are cast with \<open>as any\<close> by
  the callers, so they are modelled as untyped JavaScript values. An object is the list of
  its own enumerable properties in enumeration order (keys distinct). Numbers are
  restricted to integers of magnitude below \<open>10^21\<close>, which \<open>JSON.stringify\<close> prints
  in plain decimal digits; only their truthiness and their JSON text are ever used.
\<close>

datatype jsval =
    JUndefined
  | JNull
  | JBool bool
  | JNum int
  | JBigInt int
  | JStr string
  | JArr "jsval list"
  | JObj "(string \<times> jsval) list"

datatype js_error = JsError (err_name: string) (message: string)

text \<open>\<open>Boolean(v)\<close>, the test behind \<open>!v\<close>, \<open>v && w\<close> and \<open>v || w\<close>.\<close>

fun truthy :: "jsval \<Rightarrow> bool" where
  "truthy JUndefined = False"
| "truthy JNull = False"
| "truthy (JBool b) = b"
| "truthy (JNum n) = (n \<noteq> 0)"
| "truthy (JBigInt n) = (n \<noteq> 0)"
| "truthy (JStr s) = (s \<noteq> [])"
| "truthy (JArr xs) = True"
| "truthy (JObj ps) = True"

text \<open>Truthiness of an optional string field (\<open>undefined\<close> is \<open>None\<close>).\<close>

definition truthy_str :: "string option \<Rightarrow> bool" where
  "truthy_str s = (case s of None \<Rightarrow> False | Some x \<Rightarrow> x \<noteq> [])"

text \<open>\<open>v ?? d\<close>: only \<open>null\<close> and \<open>undefined\<close> are replaced.\<close>

definition nullish :: "jsval \<Rightarrow> jsval \<Rightarrow> jsval" where
  "nullish v d = (if v = JUndefined \<or> v = JNull then d else v)"

text \<open>\<open>typeof v\<close>.\<close>

fun typeof :: "jsval \<Rightarrow> string" where
  "typeof JUndefined = ''undefined''"
| "typeof JNull = ''object''"
| "typeof (JBool b) = ''boolean''"
| "typeof (JNum n) = ''number''"
| "typeof (JBigInt n) = ''bigint''"
| "typeof (JStr s) = ''string''"
| "typeof (JArr xs) = ''object''"
| "typeof (JObj ps) = ''object''"

text \<open>
  \<open>k in v\<close> for the two keys the adapter asks about, \<open>type\<close> and \<open>text\<close>, which no
  prototype defines: on an object it is the presence of the own property, on an array it
  is false, and on a primitive (where \<open>typeof v\<close> is not \<open>object\<close>, or \<open>v\<close> is
  \<open>null\<close>) the operator throws a TypeError.
\<close>

fun js_in :: "string \<Rightarrow> jsval \<Rightarrow> js_error + bool" where
  "js_in k (JObj ps) = Inr (k \<in> set (map fst ps))"
| "js_in k (JArr xs) = Inr False"
| "js_in k v = Inl (JsError ''TypeError'' ''Cannot use in operator on a primitive'')"

text \<open>
  Property read \<open>v.k\<close>, again for \<open>type\<close> and \<open>text\<close>: \<open>undefined\<close> where the
  property is missing, a TypeError on \<open>null\<close> and \<open>undefined\<close>.
\<close>

fun js_get :: "jsval \<Rightarrow> string \<Rightarrow> js_error + jsval" where
  "js_get (JObj ps) k = Inr (case map_of ps k of None \<Rightarrow> JUndefined | Some v \<Rightarrow> v)"
| "js_get JUndefined k = Inl (JsError ''TypeError'' ''Cannot read properties of undefined'')"
| "js_get JNull k = Inl (JsError ''TypeError'' ''Cannot read properties of null'')"
| "js_get v k = Inr JUndefined"

text \<open>\<open>Array.prototype.find\<close> with a predicate that may throw.\<close>

fun js_find :: "(jsval \<Rightarrow> js_error + bool) \<Rightarrow> jsval list \<Rightarrow> js_error + jsval" where
  "js_find p [] = Inr JUndefined"
| "js_find p (c # cs) =
     (case p c of
        Inl e \<Rightarrow> Inl e
      | Inr b \<Rightarrow> if b then Inr c else js_find p cs)"

section \<open>Content resolver\<close>

text \<open>
  The callback of \<open>content.find\<close> in \<open>resolveMessageContent\<close>; the conjunction is
  evaluated left to right and stops at the first false operand.
\<close>

definition isTextContent :: "jsval \<Rightarrow> js_error + bool" where
  "isTextContent c =
     (if typeof c \<noteq> ''object'' then Inr False
      else if c = JNull then Inr False
      else case js_in ''type'' c of
             Inl e \<Rightarrow> Inl e
           | Inr has_type \<Rightarrow>
               (if \<not> has_type then Inr False
                else (case js_get c ''type'' of
                        Inl e \<Rightarrow> Inl e
                      | Inr t \<Rightarrow>
                          if t \<noteq> JStr ''text'' then Inr False else js_in ''text'' c)))"

text \<open>
  \<open>resolveMessageContent(content)\<close>. The result is \<open>string | null\<close> by its
  signature; at run time it is the value read from the block's \<open>text\<close> property.
\<close>

definition resolveMessageContent :: "jsval \<Rightarrow> js_error + jsval" where
  "resolveMessageContent content =
     (if \<not> truthy content then Inr JNull
      else if typeof content = ''string'' then Inr content
      else case content of
             JArr cs \<Rightarrow>
               (if cs \<noteq> [] then
                  (case js_find isTextContent cs of
                     Inl e \<Rightarrow> Inl e
                   | Inr textContent \<Rightarrow>
                       (if textContent = JUndefined \<or> textContent = JNull then Inr JNull
                        else case js_get textContent ''text'' of
                               Inl e \<Rightarrow> Inl e
                             | Inr t \<Rightarrow> Inr (nullish t JNull)))
                else Inr JNull)
           | _ \<Rightarrow> Inr JNull)"

section \<open>JSON.stringify\<close>

text \<open>
  The built-in \<open>JSON.stringify\<close> on the values above: \<open>undefined\<close> has no JSON
  text (the call returns \<open>undefined\<close>, an array slot holding it prints as \<open>null\<close>, an
  object property holding it is left out), and a BigInt makes the call throw a TypeError.
\<close>

definition digit_char :: "nat \<Rightarrow> char" where
  "digit_char d = ''0123456789abcdef'' ! d"

fun digits :: "nat \<Rightarrow> string" where
  "digits n = (if n < 10 then [digit_char n] else digits (n div 10) @ [digit_char (n mod 10)])"

declare digits.simps [simp del]

definition number_text :: "int \<Rightarrow> string" where
  "number_text n = (if n < 0 then ''-'' @ digits (nat (- n)) else digits (nat n))"

definition json_quote_char :: "char \<Rightarrow> string" where
  "json_quote_char c =
     (if c = CHR 0x22 then [CHR 0x5C, CHR 0x22]
      else if c = CHR 0x5C then [CHR 0x5C, CHR 0x5C]
      else if c = CHR 0x08 then [CHR 0x5C, CHR ''b'']
      else if c = CHR 0x0C then [CHR 0x5C, CHR ''f'']
      else if c = CHR 0x0A then [CHR 0x5C, CHR ''n'']
      else if c = CHR 0x0D then [CHR 0x5C, CHR ''r'']
      else if c = CHR 0x09 then [CHR 0x5C, CHR ''t'']
      else if (of_char c :: nat) < 32
        then [CHR 0x5C, CHR ''u'', CHR ''0'', CHR ''0'',
              digit_char (of_char c div 16), digit_char (of_char c mod 16)]
      else [c])"

definition json_quote :: "string \<Rightarrow> string" where
  "json_quote s = [CHR 0x22] @ concat (map json_quote_char s) @ [CHR 0x22]"

fun join_commas :: "string list \<Rightarrow> string" where
  "join_commas [] = []"
| "join_commas [t] = t"
| "join_commas (t # ts) = t @ '','' @ join_commas ts"

fun serialize :: "jsval \<Rightarrow> js_error + string option"
  and serialize_elements :: "jsval list \<Rightarrow> js_error + string list"
  and serialize_properties :: "(string \<times> jsval) list \<Rightarrow> js_error + string list"
where
  "serialize JUndefined = Inr None"
| "serialize JNull = Inr (Some ''null'')"
| "serialize (JBool b) = Inr (Some (if b then ''true'' else ''false''))"
| "serialize (JNum n) = Inr (Some (number_text n))"
| "serialize (JBigInt n) = Inl (JsError ''TypeError'' ''Do not know how to serialize a BigInt'')"
| "serialize (JStr s) = Inr (Some (json_quote s))"
| "serialize (JArr xs) =
     (case serialize_elements xs of
        Inl e \<Rightarrow> Inl e
      | Inr ts \<Rightarrow> Inr (Some (''['' @ join_commas ts @ '']'')))"
| "serialize (JObj ps) =
     (case serialize_properties ps of
        Inl e \<Rightarrow> Inl e
      | Inr ts \<Rightarrow> Inr (Some (''{'' @ join_commas ts @ ''}'')))"
| "serialize_elements [] = Inr []"
| "serialize_elements (x # xs) =
     (case serialize x of
        Inl e \<Rightarrow> Inl e
      | Inr t \<Rightarrow>
          (case serialize_elements xs of
             Inl e \<Rightarrow> Inl e
           | Inr ts \<Rightarrow> Inr ((case t of None \<Rightarrow> ''null'' | Some u \<Rightarrow> u) # ts)))"
| "serialize_properties [] = Inr []"
| "serialize_properties ((k, v) # ps) =
     (case serialize v of
        Inl e \<Rightarrow> Inl e
      | Inr t \<Rightarrow>
          (case serialize_properties ps of
             Inl e \<Rightarrow> Inl e
           | Inr ts \<Rightarrow>
               Inr (case t of None \<Rightarrow> ts | Some u \<Rightarrow> (json_quote k @ '':'' @ u) # ts)))"

definition JSON_stringify :: "jsval \<Rightarrow> js_error + jsval" where
  "JSON_stringify v =
     (case serialize v of
        Inl e \<Rightarrow> Inl e
      | Inr None \<Rightarrow> Inr JUndefined
      | Inr (Some t) \<Rightarrow> Inr (JStr t))"

section \<open>Events, units in progress and the stream state\<close>

text \<open>A tool call of a chunk (\<open>chunk.tool_calls[0]\<close>); a missing field is \<open>None\<close>
  or \<open>JUndefined\<close>.\<close>

record ToolCall =
  tc_name :: "string option"
  tc_args :: jsval
  tc_id :: "string option"

text \<open>
  The fields of an \<open>AIMessageChunk\<close> that the handlers read: \<open>id\<close>, \<open>content\<close>,
  \<open>tool_calls\<close> and \<open>response_metadata?.finish_reason\<close>.
\<close>

record AIMessageChunk =
  chunk_id :: "string option"
  chunk_content :: jsval
  tool_calls :: "ToolCall list option"
  finish_reason :: jsval

text \<open>
  A \<open>StreamEvent\<close> of the engine: its discriminant \<open>event\<close>, \<open>run_id\<close>,
  \<open>metadata\<close> and \<open>data?.chunk\<close> (\<open>None\<close> when \<open>data\<close> or \<open>chunk\<close> is
  missing or falsy).
\<close>

record StreamEvent =
  event :: string
  run_id :: "string option"
  metadata :: "(string \<times> jsval) list option"
  chunk :: "AIMessageChunk option"

text \<open>\<open>MessageInProgress\<close>; \<open>null\<close> and \<open>undefined\<close> are both \<open>None\<close>.\<close>

record MessageInProgress =
  msg_id :: string
  toolCallId :: "string option"
  toolCallName :: "string option"

record StreamState =
  runId :: string
  messagesInProgress :: "string \<rightharpoonup> MessageInProgress"
  currentNodeName :: jsval
  hasError :: bool

text \<open>
  Modelled from the spec: \<open>RuntimeEventSubject\<close> (\<open>../events\<close>) is not among the
  sources. Its \<open>send...\<close> methods and \<open>next\<close> publish one event of the kind named,
  with the fields listed for the output events; \<open>complete\<close> signals completion.
\<close>

datatype RuntimeEvent =
    TextMessageStart string
  | TextMessageContent string jsval
  | TextMessageEnd string
  | ActionExecutionStart string string "string option"
  | ActionExecutionArgs string jsval
  | ActionExecutionEnd string
  | RunError string string

datatype sink_signal = Next RuntimeEvent | Complete

text \<open>
  \<open>randomUUID\<close> (\<open>@copilotkit/shared\<close>) is not among the sources and is a
  parameter: an arbitrary sequence \<open>gen\<close> of identifiers, of which every call takes the
  next. The number of identifiers drawn so far is threaded through the handlers.
\<close>

type_synonym uuid_source = "nat \<Rightarrow> string"

definition randomUUID :: "uuid_source \<Rightarrow> nat \<Rightarrow> string \<times> nat" where
  "randomUUID gen n = (gen n, Suc n)"

text \<open>\<open>s || randomUUID()\<close> for an optional string \<open>s\<close>.\<close>

definition orRandomUUID :: "string option \<Rightarrow> uuid_source \<Rightarrow> nat \<Rightarrow> string \<times> nat" where
  "orRandomUUID s gen n =
     (case s of
        None \<Rightarrow> randomUUID gen n
      | Some x \<Rightarrow> if x \<noteq> [] then (x, n) else randomUUID gen n)"

text \<open>
  What a call has done when it returns or throws: the stream state, the number of
  identifiers drawn, the events written to the sink during the call (in order), and the
  exception in flight, if any.
\<close>

record outcome =
  state :: StreamState
  drawn :: nat
  emitted :: "RuntimeEvent list"
  thrown :: "js_error option"

definition createStreamState :: "uuid_source \<Rightarrow> nat \<Rightarrow> StreamState \<times> nat" where
  "createStreamState gen n =
     (case randomUUID gen n of
        (u, n') \<Rightarrow>
          (\<lparr>runId = u, messagesInProgress = Map.empty,
            currentNodeName = JUndefined, hasError = False\<rparr>, n'))"

definition getMessageInProgress :: "string \<Rightarrow> StreamState \<Rightarrow> MessageInProgress option" where
  "getMessageInProgress r st = messagesInProgress st r"

definition setMessageInProgress ::
  "string \<Rightarrow> MessageInProgress \<Rightarrow> StreamState \<Rightarrow> StreamState" where
  "setMessageInProgress r m st = st\<lparr>messagesInProgress := (messagesInProgress st)(r \<mapsto> m)\<rparr>"

section \<open>Unit lifecycle handlers\<close>

text \<open>\<open>currentStream?.id\<close> and \<open>currentStream?.toolCallId\<close>.\<close>

definition current_id :: "MessageInProgress option \<Rightarrow> string option" where
  "current_id cur = (case cur of None \<Rightarrow> None | Some m \<Rightarrow> Some (msg_id m))"

definition current_toolCallId :: "MessageInProgress option \<Rightarrow> string option" where
  "current_toolCallId cur = (case cur of None \<Rightarrow> None | Some m \<Rightarrow> toolCallId m)"

text \<open>The string of an optional field, read only after the field has tested truthy.\<close>

definition str_value :: "string option \<Rightarrow> string" where
  "str_value s = (case s of None \<Rightarrow> [] | Some x \<Rightarrow> x)"

text \<open>\<open>event.metadata?.[k]\<close>.\<close>

definition metadata_get :: "StreamEvent \<Rightarrow> string \<Rightarrow> jsval" where
  "metadata_get ev k =
     (case metadata ev of
        None \<Rightarrow> JUndefined
      | Some ps \<Rightarrow> (case map_of ps k of None \<Rightarrow> JUndefined | Some v \<Rightarrow> v))"

text \<open>\<open>chunk.tool_calls?.[0]\<close>.\<close>

definition first_tool_call :: "AIMessageChunk \<Rightarrow> ToolCall option" where
  "first_tool_call ck =
     (case tool_calls ck of
        None \<Rightarrow> None
      | Some tcs \<Rightarrow> (case tcs of [] \<Rightarrow> None | tc # _ \<Rightarrow> Some tc))"

text \<open>A call that returns having written the events \<open>out\<close>.\<close>

definition returns :: "StreamState \<Rightarrow> nat \<Rightarrow> RuntimeEvent list \<Rightarrow> outcome" where
  "returns st n out = \<lparr>state = st, drawn = n, emitted = out, thrown = None\<rparr>"

text \<open>A call that throws \<open>e\<close> before it has written anything.\<close>

definition throws :: "StreamState \<Rightarrow> nat \<Rightarrow> js_error \<Rightarrow> outcome" where
  "throws st n e = \<lparr>state = st, drawn = n, emitted = [], thrown = Some e\<rparr>"

text \<open>
  The block \<open>if (toolCall && shouldEmitToolCalls) { ... }\<close> of
  \<open>handleChatModelStream\<close>. \<open>Some r\<close>: one of its two branches ran and returned
  with outcome \<open>r\<close>; \<open>None\<close>: control goes on to the text part. The three
  \<open>|| randomUUID()\<close> of the start branch are evaluated in source order.
\<close>

definition handleChatModelStream_toolCall ::
  "uuid_source \<Rightarrow> AIMessageChunk \<Rightarrow> ToolCall option \<Rightarrow> jsval \<Rightarrow> MessageInProgress option \<Rightarrow>
   bool \<Rightarrow> StreamState \<Rightarrow> nat \<Rightarrow> outcome option" where
  "handleChatModelStream_toolCall gen ck toolCall shouldEmitToolCalls currentStream
       hasCurrentStream st n =
     (case toolCall of
        None \<Rightarrow> None
      | Some tc \<Rightarrow>
          if \<not> truthy shouldEmitToolCalls then None
          else if \<not> hasCurrentStream \<and> truthy_str (tc_name tc) then
            (case orRandomUUID (tc_id tc) gen n of (actionExecutionId, n1) \<Rightarrow>
             case orRandomUUID (chunk_id ck) gen n1 of (new_id, n2) \<Rightarrow>
             case orRandomUUID (tc_id tc) gen n2 of (new_toolCallId, n3) \<Rightarrow>
               Some (returns
                 (setMessageInProgress (runId st)
                    \<lparr>msg_id = new_id, toolCallId = Some new_toolCallId,
                     toolCallName = tc_name tc\<rparr> st)
                 n3
                 [ActionExecutionStart actionExecutionId (str_value (tc_name tc)) (chunk_id ck)]))
          else if hasCurrentStream \<and> truthy_str (current_toolCallId currentStream)
                  \<and> truthy (tc_args tc) then
            (case JSON_stringify (tc_args tc) of
               Inl e \<Rightarrow> Some (throws st n e)
             | Inr args \<Rightarrow>
                 Some (returns st n
                   [ActionExecutionArgs (str_value (current_toolCallId currentStream)) args]))
          else None)"

text \<open>The rest of \<open>handleChatModelStream\<close>, from \<open>resolveMessageContent\<close> on.\<close>

definition handleChatModelStream_text ::
  "uuid_source \<Rightarrow> AIMessageChunk \<Rightarrow> jsval \<Rightarrow> MessageInProgress option \<Rightarrow> bool \<Rightarrow>
   StreamState \<Rightarrow> nat \<Rightarrow> outcome" where
  "handleChatModelStream_text gen ck shouldEmitMessages currentStream hasCurrentStream st n =
     (case resolveMessageContent (chunk_content ck) of
        Inl e \<Rightarrow> throws st n e
      | Inr messageContent \<Rightarrow>
          if truthy messageContent \<and> truthy shouldEmitMessages then
            if \<not> hasCurrentStream \<or> truthy_str (current_toolCallId currentStream) then
              (case orRandomUUID (chunk_id ck) gen n of (messageId, n1) \<Rightarrow>
                 let st1 = setMessageInProgress (runId st)
                             \<lparr>msg_id = messageId, toolCallId = None, toolCallName = None\<rparr> st;
                     currentStream1 = getMessageInProgress (runId st) st1
                 in returns st1 n1
                      (TextMessageStart messageId #
                       (if truthy_str (current_id currentStream1)
                        then [TextMessageContent (str_value (current_id currentStream1))
                                messageContent]
                        else [])))
            else
              returns st n
                (if truthy_str (current_id currentStream)
                 then [TextMessageContent (str_value (current_id currentStream)) messageContent]
                 else [])
          else returns st n [])"

definition handleChatModelStream ::
  "uuid_source \<Rightarrow> StreamEvent \<Rightarrow> StreamState \<Rightarrow> nat \<Rightarrow> outcome" where
  "handleChatModelStream gen ev st n =
     (case chunk ev of
        None \<Rightarrow> returns st n []
      | Some ck \<Rightarrow>
          let shouldEmitMessages =
                nullish (metadata_get ev ''copilotkit:emit-messages'') (JBool True);
              shouldEmitToolCalls =
                nullish (metadata_get ev ''copilotkit:emit-tool-calls'') (JBool True)
          in if truthy (finish_reason ck) then returns st n []
             else
               let currentStream = getMessageInProgress (runId st) st;
                   hasCurrentStream = truthy_str (current_id currentStream);
                   toolCall = first_tool_call ck
               in (case handleChatModelStream_toolCall gen ck toolCall shouldEmitToolCalls
                          currentStream hasCurrentStream st n of
                     Some r \<Rightarrow> r
                   | None \<Rightarrow>
                       handleChatModelStream_text gen ck shouldEmitMessages currentStream
                         hasCurrentStream st n))"

definition handleChatModelEnd :: "StreamState \<Rightarrow> nat \<Rightarrow> outcome" where
  "handleChatModelEnd st n =
     (let currentStream = getMessageInProgress (runId st) st
      in returns (st\<lparr>messagesInProgress := (messagesInProgress st)(runId st := None)\<rparr>) n
           (if truthy_str (current_toolCallId currentStream)
            then [ActionExecutionEnd (str_value (current_toolCallId currentStream))]
            else if truthy_str (current_id currentStream)
            then [TextMessageEnd (str_value (current_id currentStream))]
            else []))"

text \<open>The constant \<open>START\<close> of the graph library, the name of its entry node.\<close>

definition START :: string where
  "START = ''__start__''"

definition handleChainStart :: "StreamEvent \<Rightarrow> StreamState \<Rightarrow> nat \<Rightarrow> outcome" where
  "handleChainStart ev st n =
     (let node = metadata_get ev ''langgraph_node''
      in if truthy node \<and> node \<noteq> JStr START
         then returns (st\<lparr>currentNodeName := node\<rparr>) n []
         else returns st n [])"

section \<open>Dispatcher and stream driver\<close>

text \<open>The \<open>try\<close> block of \<open>handleLangGraphEvent\<close> (logging left out).\<close>

definition handleLangGraphEvent_try ::
  "uuid_source \<Rightarrow> StreamEvent \<Rightarrow> StreamState \<Rightarrow> nat \<Rightarrow> outcome" where
  "handleLangGraphEvent_try gen ev st n =
     (let st1 = (if runId st = [] \<and> truthy_str (run_id ev)
                 then st\<lparr>runId := str_value (run_id ev)\<rparr> else st)
      in if event ev = ''on_chat_model_stream'' then handleChatModelStream gen ev st1 n
         else if event ev = ''on_chat_model_end'' then handleChatModelEnd st1 n
         else if event ev = ''on_custom_event'' then returns st1 n []
         else if event ev = ''on_chain_start'' then handleChainStart ev st1 n
         else returns st1 n [])"

text \<open>
  \<open>handleLangGraphEvent\<close>: the \<open>try\<close> block and its \<open>catch\<close>. The error
  conversion \<open>convertServiceAdapterError\<close> (\<open>../shared\<close>) is not among the sources
  and is a parameter.
\<close>

definition handleLangGraphEvent ::
  "(js_error \<Rightarrow> string \<Rightarrow> js_error) \<Rightarrow> uuid_source \<Rightarrow> StreamEvent \<Rightarrow> StreamState \<Rightarrow> nat \<Rightarrow>
   outcome" where
  "handleLangGraphEvent convertServiceAdapterError gen ev st n =
     (let r = handleLangGraphEvent_try gen ev st n
      in case thrown r of
           None \<Rightarrow> r
         | Some error \<Rightarrow>
             (let convertedError = convertServiceAdapterError error ''LangGraph''
              in r\<lparr>emitted := emitted r @
                       [RunError (message convertedError) ''LANGGRAPH_EVENT_ERROR''],
                    thrown := None\<rparr>))"

text \<open>
  The \<open>for await\<close> loop of \<open>processLangGraphStream\<close>. The source stream is the list
  of events it yields and then its end: \<open>None\<close> when it is exhausted, \<open>Some e\<close> when
  the iterator (or the call that creates it) throws \<open>e\<close>. An exception out of
  \<open>handleLangGraphEvent\<close> would leave the loop at once.
\<close>

fun for_await ::
  "(js_error \<Rightarrow> string \<Rightarrow> js_error) \<Rightarrow> uuid_source \<Rightarrow> StreamEvent list \<Rightarrow> js_error option \<Rightarrow>
   StreamState \<Rightarrow> nat \<Rightarrow> outcome" where
  "for_await conv gen [] failure st n =
     \<lparr>state = st, drawn = n, emitted = [], thrown = failure\<rparr>"
| "for_await conv gen (ev # rest) failure st n =
     (let r = handleLangGraphEvent conv gen ev st n
      in case thrown r of
           Some e \<Rightarrow> r
         | None \<Rightarrow>
             (let r' = for_await conv gen rest failure (state r) (drawn r)
              in r'\<lparr>emitted := emitted r @ emitted r'\<rparr>))"

text \<open>
  What an invocation of \<open>processLangGraphStream\<close> leaves behind: everything the sink
  received, in order, and the error the returned promise rejects with, if any.
\<close>

record invocation =
  sink :: "sink_signal list"
  rejected :: "js_error option"

text \<open>
  \<open>processLangGraphStream\<close>: \<open>try\<close> the loop, \<open>catch\<close> converts and rethrows,
  \<open>finally\<close> completes the sink before the promise settles.
\<close>

definition processLangGraphStream ::
  "(js_error \<Rightarrow> string \<Rightarrow> js_error) \<Rightarrow> uuid_source \<Rightarrow> nat \<Rightarrow> StreamEvent list \<Rightarrow>
   js_error option \<Rightarrow> invocation" where
  "processLangGraphStream convertServiceAdapterError gen n evs failure =
     (case createStreamState gen n of (streamState, n0) \<Rightarrow>
        let r = for_await convertServiceAdapterError gen evs failure streamState n0;
            rethrown = (case thrown r of
                          None \<Rightarrow> None
                        | Some error \<Rightarrow> Some (convertServiceAdapterError error ''LangGraph''))
        in \<lparr>sink = map Next (emitted r) @ [Complete], rejected = rethrown\<rparr>)"

section \<open>Vocabulary of the specification\<close>

text \<open>
  A content block is an object; its discriminant is its \<open>type\<close> property and its text
  field is its \<open>text\<close> property (\<open>undefined\<close> where the block has none).
\<close>

definition property :: "jsval \<Rightarrow> string \<Rightarrow> jsval" where
  "property b k =
     (case b of
        JObj ps \<Rightarrow> (case map_of ps k of None \<Rightarrow> JUndefined | Some v \<Rightarrow> v)
      | _ \<Rightarrow> JUndefined)"

definition discriminant :: "jsval \<Rightarrow> jsval" where
  "discriminant b = property b ''type''"

definition is_string :: "jsval \<Rightarrow> bool" where
  "is_string v = (case v of JStr t \<Rightarrow> True | _ \<Rightarrow> False)"

definition is_array :: "jsval \<Rightarrow> bool" where
  "is_array v = (case v of JArr cs \<Rightarrow> True | _ \<Rightarrow> False)"

text \<open>The block is an object that has the property \<open>k\<close>.\<close>

definition has_property :: "jsval \<Rightarrow> string \<Rightarrow> bool" where
  "has_property b k = (case b of JObj ps \<Rightarrow> map_of ps k \<noteq> None | _ \<Rightarrow> False)"

text \<open>The first block of a list whose discriminant is \<open>text\<close>.\<close>

definition first_text_discriminant_block :: "jsval list \<Rightarrow> jsval option" where
  "first_text_discriminant_block cs = find (\<lambda>b. discriminant b = JStr ''text'') cs"

text \<open>
  The first block of a list whose discriminant is \<open>text\<close> and which has a \<open>text\<close>
  property.
\<close>

definition first_text_block :: "jsval list \<Rightarrow> jsval option" where
  "first_text_block cs =
     find (\<lambda>b. discriminant b = JStr ''text'' \<and> has_property b ''text'') cs"

text \<open>The unit the table holds for the run of the stream state.\<close>

definition open_unit :: "StreamState \<Rightarrow> MessageInProgress option" where
  "open_unit st = messagesInProgress st (runId st)"

text \<open>
  A unit is a tool-call unit when it holds a call id, and a text unit otherwise; the
  handlers take a unit for open when its id is set.
\<close>

definition is_tool_call_unit :: "MessageInProgress \<Rightarrow> bool" where
  "is_tool_call_unit m = truthy_str (toolCallId m)"

definition is_text_unit :: "MessageInProgress \<Rightarrow> bool" where
  "is_text_unit m = (msg_id m \<noteq> [] \<and> \<not> is_tool_call_unit m)"

definition text_open :: "StreamState \<Rightarrow> bool" where
  "text_open st = (case open_unit st of None \<Rightarrow> False | Some m \<Rightarrow> is_text_unit m)"

text \<open>
  The states an invocation can be in: the run id is set (\<open>createStreamState\<close> draws
  one) and the unit of the run, if any, has an id.
\<close>

definition wf_state :: "StreamState \<Rightarrow> bool" where
  "wf_state st =
     (runId st \<noteq> [] \<and> (case open_unit st of None \<Rightarrow> True | Some m \<Rightarrow> msg_id m \<noteq> []))"

text \<open>
  No two \<open>TextMessageStart\<close> without a \<open>TextMessageEnd\<close> or a tool-call start
  between them; \<open>pending\<close> says that a text message start is waiting for one.
\<close>

fun starts_separated :: "bool \<Rightarrow> RuntimeEvent list \<Rightarrow> bool" where
  "starts_separated pending [] = True"
| "starts_separated pending (TextMessageStart i # es) =
     (\<not> pending \<and> starts_separated True es)"
| "starts_separated pending (TextMessageEnd i # es) = starts_separated False es"
| "starts_separated pending (ActionExecutionStart i a p # es) = starts_separated False es"
| "starts_separated pending (e # es) = starts_separated pending es"

fun text_pending :: "bool \<Rightarrow> RuntimeEvent list \<Rightarrow> bool" where
  "text_pending pending [] = pending"
| "text_pending pending (TextMessageStart i # es) = text_pending True es"
| "text_pending pending (TextMessageEnd i # es) = text_pending False es"
| "text_pending pending (ActionExecutionStart i a p # es) = text_pending False es"
| "text_pending pending (e # es) = text_pending pending es"

text \<open>What one handled event must preserve for the starts to stay separated.\<close>

definition step_ok :: "StreamState \<Rightarrow> outcome \<Rightarrow> bool" where
  "step_ok st r =
     (wf_state (state r) \<and> starts_separated (text_open st) (emitted r)
      \<and> text_pending (text_open st) (emitted r) = text_open (state r)
      \<and> ((\<exists>i. TextMessageStart i \<in> set (emitted r)) \<longrightarrow> \<not> text_open st)
      \<and> (thrown r \<noteq> None \<longrightarrow> emitted r = [] \<and> state r = st))"

text \<open>The events among the signals a sink received.\<close>

definition sink_events :: "sink_signal list \<Rightarrow> RuntimeEvent list" where
  "sink_events ss = concat (map (\<lambda>s. case s of Next e \<Rightarrow> [e] | Complete \<Rightarrow> []) ss)"

text \<open>A suppression flag is enabled when the metadata leave it out or set it to true.\<close>

definition flag_enabled :: "StreamEvent \<Rightarrow> string \<Rightarrow> bool" where
  "flag_enabled ev k = (metadata_get ev k = JUndefined \<or> metadata_get ev k = JBool True)"

text \<open>
  A token delta whose content is the plain string \<open>s\<close>, with no tool-call descriptor,
  no finish marker, and message emission enabled.
\<close>

definition plain_text_delta :: "StreamEvent \<Rightarrow> string \<Rightarrow> bool" where
  "plain_text_delta ev s =
     (event ev = ''on_chat_model_stream'' \<and> flag_enabled ev ''copilotkit:emit-messages'' \<and>
      (case chunk ev of
         None \<Rightarrow> False
       | Some ck \<Rightarrow>
           chunk_content ck = JStr s \<and> first_tool_call ck = None
           \<and> \<not> truthy (finish_reason ck)))"


text \<open>The metadata that set both suppression flags to true.\<close>

definition flags_true :: "(string \<times> jsval) list" where
  "flags_true =
     [(''copilotkit:emit-messages'', JBool True), (''copilotkit:emit-tool-calls'', JBool True)]"

text \<open>
  The delta streams no tool-call arguments: it carries no tool-call descriptor, or one
  without argument data, or the metadata set tool-call emission to false.
\<close>

definition no_streamed_args :: "StreamEvent \<Rightarrow> AIMessageChunk \<Rightarrow> bool" where
  "no_streamed_args ev ck =
     (case first_tool_call ck of
        None \<Rightarrow> True
      | Some tc \<Rightarrow>
          \<not> truthy (tc_args tc) \<or> metadata_get ev ''copilotkit:emit-tool-calls'' = JBool False)"

section \<open>Sample inputs\<close>

text \<open>An identifier sequence, an error conversion and events to run the handlers on.\<close>

definition uuid_seq :: uuid_source where
  "uuid_seq n = ''uuid-'' @ digits n"

definition sample_convert :: "js_error \<Rightarrow> string \<Rightarrow> js_error" where
  "sample_convert e adapter = JsError (err_name e) (adapter @ '': '' @ message e)"

definition text_delta :: "string \<Rightarrow> StreamEvent" where
  "text_delta s =
     \<lparr>event = ''on_chat_model_stream'', run_id = Some ''run-1'', metadata = None,
      chunk = Some \<lparr>chunk_id = None, chunk_content = JStr s, tool_calls = None,
                    finish_reason = JUndefined\<rparr>\<rparr>"

definition generation_end :: StreamEvent where
  "generation_end =
     \<lparr>event = ''on_chat_model_end'', run_id = Some ''run-1'', metadata = None, chunk = None\<rparr>"

definition fresh_state :: StreamState where
  "fresh_state = fst (createStreamState uuid_seq 0)"

definition tool_delta :: "ToolCall \<Rightarrow> (string \<times> jsval) list option \<Rightarrow> StreamEvent" where
  "tool_delta tc md =
     \<lparr>event = ''on_chat_model_stream'', run_id = Some ''run-1'', metadata = md,
      chunk = Some \<lparr>chunk_id = None, chunk_content = JStr [], tool_calls = Some [tc],
                    finish_reason = JUndefined\<rparr>\<rparr>"

definition tool_unit :: MessageInProgress where
  "tool_unit = \<lparr>msg_id = ''msg_1'', toolCallId = Some ''call_1'', toolCallName = Some ''search''\<rparr>"

definition text_unit :: MessageInProgress where
  "text_unit = \<lparr>msg_id = ''msg_1'', toolCallId = None, toolCallName = None\<rparr>"

definition with_unit :: "MessageInProgress \<Rightarrow> StreamState" where
  "with_unit m = setMessageInProgress (runId fresh_state) m fresh_state"

definition search_call :: ToolCall where
  "search_call = \<lparr>tc_name = Some ''search'', tc_args = JUndefined, tc_id = Some ''call_1''\<rparr>"

definition search_call_no_id :: ToolCall where
  "search_call_no_id = \<lparr>tc_name = Some ''search'', tc_args = JObj [], tc_id = None\<rparr>"

definition unnamed_cats_args :: ToolCall where
  "unnamed_cats_args =
     \<lparr>tc_name = Some [], tc_args = JObj [(''query'', JStr ''cats'')], tc_id = None\<rparr>"

definition cats_args :: ToolCall where
  "cats_args = \<lparr>tc_name = None, tc_args = JObj [(''query'', JStr ''cats'')], tc_id = None\<rparr>"

definition bigint_args :: ToolCall where
  "bigint_args = \<lparr>tc_name = None, tc_args = JObj [(''count'', JBigInt 1)], tc_id = None\<rparr>"

definition text_and_args_delta :: StreamEvent where
  "text_and_args_delta =
     \<lparr>event = ''on_chat_model_stream'', run_id = Some ''run-1'', metadata = None,
      chunk = Some \<lparr>chunk_id = None, chunk_content = JStr ''hi'',
                    tool_calls = Some [unnamed_cats_args],
                    finish_reason = JUndefined\<rparr>\<rparr>"

definition finished_text_delta :: StreamEvent where
  "finished_text_delta =
     \<lparr>event = ''on_chat_model_stream'', run_id = Some ''run-1'', metadata = None,
      chunk = Some \<lparr>chunk_id = None, chunk_content = JStr ''hi'', tool_calls = None,
                    finish_reason = JStr ''stop''\<rparr>\<rparr>"

definition suppressed_tool_delta :: StreamEvent where
  "suppressed_tool_delta =
     \<lparr>event = ''on_chat_model_stream'', run_id = Some ''run-1'',
      metadata = Some [(''copilotkit:emit-tool-calls'', JBool False)],
      chunk = Some \<lparr>chunk_id = Some ''chunk-1'', chunk_content = JStr ''hello'',
                    tool_calls = Some [search_call], finish_reason = JUndefined\<rparr>\<rparr>"

section \<open>The content resolver: properties\<close>

lemma in_keys_iff: "(k \<in> fst ` set ps) = (map_of ps k \<noteq> None)"
  by (simp add: map_of_eq_None_iff)

lemma isTextContent_returns: "\<exists>r. isTextContent b = Inr r"
  by (cases b) (auto simp: isTextContent_def)

lemma isTextContent_object: "isTextContent c = Inr True \<Longrightarrow> \<exists>ps. c = JObj ps"
  by (cases c) (simp_all add: isTextContent_def split: if_splits)

lemma js_find_returns:
  "\<exists>r. js_find isTextContent cs = Inr r \<and> (r = JUndefined \<or> (\<exists>ps. r = JObj ps))"
proof (induction cs)
  case Nil
  show ?case by simp
next
  case (Cons c cs)
  obtain b where b: "isTextContent c = Inr b"
    using isTextContent_returns by blast
  show ?case
  proof (cases b)
    case True
    with b have "\<exists>ps. c = JObj ps" by (simp add: isTextContent_object)
    with b True show ?thesis by auto
  next
    case False
    with b Cons show ?thesis by simp
  qed
qed

lemma resolveMessageContent_returns: "\<exists>r. resolveMessageContent v = Inr r"
proof (cases v)
  case (JArr cs)
  obtain r where "js_find isTextContent cs = Inr r" "r = JUndefined \<or> (\<exists>ps. r = JObj ps)"
    using js_find_returns by blast
  with JArr show ?thesis by (auto simp: resolveMessageContent_def)
qed (simp_all add: resolveMessageContent_def)

lemma isTextContent_eq:
  "isTextContent b = Inr (discriminant b = JStr ''text'' \<and> has_property b ''text'')"
  by (cases b)
    (auto simp: isTextContent_def discriminant_def property_def has_property_def in_keys_iff
      split: option.splits)

lemma js_find_first_text_block:
  "js_find isTextContent cs =
     Inr (case first_text_block cs of None \<Rightarrow> JUndefined | Some b \<Rightarrow> b)"
  by (induction cs) (simp_all add: isTextContent_eq first_text_block_def)

lemma resolveMessageContent_array:
  "resolveMessageContent (JArr cs) =
     Inr (case first_text_block cs of
            None \<Rightarrow> JNull
          | Some b \<Rightarrow> nullish (property b ''text'') JNull)"
proof (cases "first_text_block cs")
  case None
  with js_find_first_text_block[of cs] have "js_find isTextContent cs = Inr JUndefined"
    by simp
  with None show ?thesis by (simp add: resolveMessageContent_def)
next
  case (Some b)
  then have "has_property b ''text''" and mem: "b \<in> set cs"
    by (auto simp: first_text_block_def find_Some_iff)
  then obtain ps where b: "b = JObj ps"
    by (auto simp: has_property_def split: jsval.splits)
  from js_find_first_text_block[of cs] Some have "js_find isTextContent cs = Inr b" by simp
  moreover from mem have "cs \<noteq> []" by auto
  ultimately show ?thesis
    using Some b by (simp add: resolveMessageContent_def property_def)
qed

text \<open>
  C3 (as amended). A non-empty plain string resolves to itself. The empty string is falsy
  and is caught by the guard \<open>if (!content) return null\<close>: it resolves to \<open>null\<close>, like
  \<open>null\<close> and an absent (\<open>undefined\<close>) content.
\<close>

theorem resolveMessageContent_string:
  "resolveMessageContent (JStr s) = Inr (if s = [] then JNull else JStr s)
   \<and> resolveMessageContent JNull = Inr JNull
   \<and> resolveMessageContent JUndefined = Inr JNull"
  by (simp add: resolveMessageContent_def)

text \<open>
  C3, counterexample. The claim has the empty string resolve to the empty string; the
  resolver returns \<open>null\<close> for it.
\<close>

theorem resolveMessageContent_empty_string_counterexample:
  "resolveMessageContent (JStr []) = Inr JNull
   \<and> resolveMessageContent (JStr []) \<noteq> Inr (JStr [])"
  by (simp add: resolveMessageContent_def)

text \<open>
  C4 (as amended). On every list the resolver returns the \<open>text\<close> field of the first
  block that is an object whose discriminant is \<open>text\<close> and that has a \<open>text\<close>
  property (\<open>null\<close> when that field holds \<open>null\<close> or \<open>undefined\<close>): a block with
  the discriminant \<open>text\<close> and no \<open>text\<close> property is passed over. When the list has
  no such block, and on every payload that is neither a string nor a list, it returns
  \<open>null\<close>. On no payload at all does it throw.
\<close>

theorem resolveMessageContent_blocks:
  "resolveMessageContent (JArr cs) =
     Inr (case first_text_block cs of
            None \<Rightarrow> JNull
          | Some b \<Rightarrow> nullish (property b ''text'') JNull)
   \<and> (\<not> is_string v \<and> \<not> is_array v \<longrightarrow> resolveMessageContent v = Inr JNull)
   \<and> (\<exists>r. resolveMessageContent v = Inr r)"
proof (intro conjI impI)
  show "resolveMessageContent (JArr cs) =
     Inr (case first_text_block cs of
            None \<Rightarrow> JNull
          | Some b \<Rightarrow> nullish (property b ''text'') JNull)"
    by (rule resolveMessageContent_array)
next
  assume "\<not> is_string v \<and> \<not> is_array v"
  then show "resolveMessageContent v = Inr JNull"
    by (cases v) (simp_all add: resolveMessageContent_def is_string_def is_array_def)
next
  show "\<exists>r. resolveMessageContent v = Inr r" by (rule resolveMessageContent_returns)
qed

theorem resolveMessageContent_blocks_witness:
  "resolveMessageContent
     (JArr [JObj [(''type'', JStr ''text''), (''text'', JStr ''hi'')],
            JObj [(''type'', JStr ''text''), (''text'', JStr ''second'')]]) = Inr (JStr ''hi'')
   \<and> resolveMessageContent
       (JArr [JObj [(''type'', JStr ''image_url'')], JObj [(''type'', JStr ''text'')],
              JObj [(''type'', JStr ''text''), (''text'', JStr ''hi'')]]) = Inr (JStr ''hi'')
   \<and> resolveMessageContent (JArr [JObj [(''type'', JStr ''image_url'')], JNum 1]) = Inr JNull
   \<and> \<not> is_string (JNum 5) \<and> \<not> is_array (JNum 5)
   \<and> resolveMessageContent (JNum 5) = Inr JNull"
  using resolveMessageContent_blocks
    [of "[JObj [(''type'', JStr ''text''), (''text'', JStr ''hi'')],
          JObj [(''type'', JStr ''text''), (''text'', JStr ''second'')]]" "JNum 5"]
    resolveMessageContent_blocks
    [of "[JObj [(''type'', JStr ''image_url'')], JObj [(''type'', JStr ''text'')],
          JObj [(''type'', JStr ''text''), (''text'', JStr ''hi'')]]" "JNum 5"]
    resolveMessageContent_blocks
    [of "[JObj [(''type'', JStr ''image_url'')], JNum 1]" "JNum 5"]
  by (simp add: discriminant_def property_def has_property_def is_string_def is_array_def
      first_text_block_def nullish_def)

text \<open>
  C4, counterexample. In the list \<open>[{type:"text"}, {type:"text", text:"hi"}]\<close> the first
  block whose discriminant is \<open>text\<close> is the first one, and it has no \<open>text\<close> field.
  The resolver returns neither that (absent) field nor \<open>null\<close>: it passes the block
  over and returns \<open>hi\<close>, the field of the second block.
\<close>

theorem resolveMessageContent_first_discriminant_counterexample:
  "first_text_discriminant_block
     [JObj [(''type'', JStr ''text'')],
      JObj [(''type'', JStr ''text''), (''text'', JStr ''hi'')]]
     = Some (JObj [(''type'', JStr ''text'')])
   \<and> property (JObj [(''type'', JStr ''text'')]) ''text'' = JUndefined
   \<and> resolveMessageContent
       (JArr [JObj [(''type'', JStr ''text'')],
              JObj [(''type'', JStr ''text''), (''text'', JStr ''hi'')]]) = Inr (JStr ''hi'')
   \<and> resolveMessageContent
       (JArr [JObj [(''type'', JStr ''text'')],
              JObj [(''type'', JStr ''text''), (''text'', JStr ''hi'')]]) \<noteq> Inr JNull"
  by (simp add: first_text_discriminant_block_def discriminant_def property_def
      resolveMessageContent_def isTextContent_def nullish_def)

section \<open>The handlers: one event at a time\<close>

lemmas unit_defs = open_unit_def is_tool_call_unit_def is_text_unit_def text_open_def wf_state_def

lemmas access_defs = getMessageInProgress_def setMessageInProgress_def current_id_def
  current_toolCallId_def truthy_str_def str_value_def returns_def throws_def

lemma orRandomUUID_nonempty:
  "\<forall>k. gen k \<noteq> [] \<Longrightarrow> orRandomUUID s gen n \<noteq> ([], n')"
  by (auto simp: orRandomUUID_def randomUUID_def split: option.splits if_splits)

lemma toolCall_step:
  assumes "\<forall>k. gen k \<noteq> []" "wf_state st"
    and "handleChatModelStream_toolCall gen ck tc flag (open_unit st) (truthy_str (current_id (open_unit st))) st n = Some r"
  shows "wf_state (state r) \<and> starts_separated (text_open st) (emitted r)
     \<and> text_pending (text_open st) (emitted r) = text_open (state r)
     \<and> (\<forall>i. TextMessageStart i \<notin> set (emitted r))
     \<and> (thrown r \<noteq> None \<longrightarrow> emitted r = [] \<and> state r = st)"
  using assms
  unfolding handleChatModelStream_toolCall_def
  by (auto simp: unit_defs access_defs orRandomUUID_nonempty[OF assms(1)]
      split: option.splits if_splits prod.splits sum.splits)

lemma text_step:
  assumes "\<forall>k. gen k \<noteq> []" "wf_state st"
    and "r = handleChatModelStream_text gen ck flag (open_unit st) (truthy_str (current_id (open_unit st))) st n"
  shows "wf_state (state r) \<and> starts_separated (text_open st) (emitted r)
     \<and> text_pending (text_open st) (emitted r) = text_open (state r)
     \<and> ((\<exists>i. TextMessageStart i \<in> set (emitted r)) \<longrightarrow> \<not> text_open st)
     \<and> thrown r = None"
proof -
  obtain c where c: "resolveMessageContent (chunk_content ck) = Inr c"
    using resolveMessageContent_returns by blast
  show ?thesis
  using assms c
  unfolding handleChatModelStream_text_def
  by (auto simp: unit_defs access_defs Let_def orRandomUUID_nonempty[OF assms(1)]
      split: option.splits if_splits prod.splits)
qed


lemma stream_step:
  assumes gen: "\<forall>k. gen k \<noteq> []" and wf: "wf_state st"
  shows "step_ok st (handleChatModelStream gen ev st n)"
proof (cases "chunk ev")
  case None
  with wf show ?thesis
    by (simp add: handleChatModelStream_def step_ok_def returns_def)
next
  case (Some ck)
  show ?thesis
  proof (cases "truthy (finish_reason ck)")
    case True
    with Some wf show ?thesis
      by (simp add: handleChatModelStream_def step_ok_def returns_def)
  next
    case False
    let ?tc = "first_tool_call ck"
    let ?flag = "nullish (metadata_get ev ''copilotkit:emit-tool-calls'') (JBool True)"
    let ?part = "handleChatModelStream_toolCall gen ck ?tc ?flag (open_unit st)
                   (truthy_str (current_id (open_unit st))) st n"
    show ?thesis
    proof (cases ?part)
      case None
      with Some False text_step[OF gen wf refl] show ?thesis
        by (simp add: handleChatModelStream_def step_ok_def getMessageInProgress_def
            open_unit_def Let_def)
    next
      case (Some r)
      from toolCall_step[OF gen wf Some] Some \<open>chunk ev = Some ck\<close> False show ?thesis
        by (simp add: handleChatModelStream_def step_ok_def getMessageInProgress_def
            open_unit_def Let_def)
    qed
  qed
qed

lemma end_step: "wf_state st \<Longrightarrow> step_ok st (handleChatModelEnd st n)"
  by (auto simp: handleChatModelEnd_def step_ok_def unit_defs access_defs Let_def
      split: option.splits)

lemma chain_step: "wf_state st \<Longrightarrow> step_ok st (handleChainStart ev st n)"
  by (simp add: handleChainStart_def step_ok_def unit_defs returns_def Let_def)

lemma try_step:
  assumes gen: "\<forall>k. gen k \<noteq> []" and wf: "wf_state st"
  shows "step_ok st (handleLangGraphEvent_try gen ev st n)"
proof -
  from wf have "runId st \<noteq> []" by (simp add: wf_state_def)
  then show ?thesis
    using stream_step[OF gen wf] end_step[OF wf] chain_step[OF wf] wf
    by (simp add: handleLangGraphEvent_try_def)
      (simp add: step_ok_def returns_def)
qed

lemma handleLangGraphEvent_returns: "thrown (handleLangGraphEvent conv gen ev st n) = None"
  by (simp add: handleLangGraphEvent_def Let_def split: option.splits)

lemma starts_separated_append:
  "starts_separated b (xs @ ys) = (starts_separated b xs \<and> starts_separated (text_pending b xs) ys)"
  by (induction b xs rule: starts_separated.induct) simp_all

lemma dispatch_step:
  assumes gen: "\<forall>k. gen k \<noteq> []" and wf: "wf_state st"
  shows "step_ok st (handleLangGraphEvent conv gen ev st n)"
  using try_step[OF gen wf, of ev n] wf
  by (cases "thrown (handleLangGraphEvent_try gen ev st n)")
    (simp_all add: handleLangGraphEvent_def Let_def step_ok_def)

lemma for_await_separated:
  assumes gen: "\<forall>k. gen k \<noteq> []"
  shows "wf_state st \<Longrightarrow>
    starts_separated (text_open st) (emitted (for_await conv gen evs failure st n))"
proof (induction evs arbitrary: st n)
  case Nil
  show ?case by simp
next
  case (Cons ev evs)
  let ?r = "handleLangGraphEvent conv gen ev st n"
  have ok: "step_ok st ?r" using dispatch_step[OF gen Cons.prems] .
  have nt: "thrown ?r = None" by (rule handleLangGraphEvent_returns)
  from ok have "wf_state (state ?r)" by (simp add: step_ok_def)
  from Cons.IH[OF this] ok nt show ?case
    by (simp add: Let_def starts_separated_append step_ok_def)
qed

lemma text_delta_opens:
  assumes gen: "\<forall>k. gen k \<noteq> []"
    and st: "runId st \<noteq> []" "open_unit st = None"
    and ev: "plain_text_delta ev s" and s: "s \<noteq> []"
  shows "\<exists>i n'. i \<noteq> [] \<and>
     handleLangGraphEvent conv gen ev st n =
       returns (setMessageInProgress (runId st)
                  \<lparr>msg_id = i, toolCallId = None, toolCallName = None\<rparr> st) n'
         [TextMessageStart i, TextMessageContent i (JStr s)]"
proof -
  from ev obtain ck where ck: "chunk ev = Some ck" "chunk_content ck = JStr s"
      "first_tool_call ck = None" "\<not> truthy (finish_reason ck)"
      "event ev = ''on_chat_model_stream''"
      "truthy (nullish (metadata_get ev ''copilotkit:emit-messages'') (JBool True))"
    by (auto simp: plain_text_delta_def flag_enabled_def nullish_def split: option.splits)
  obtain i n' where i: "orRandomUUID (chunk_id ck) gen n = (i, n')"
    by (cases "orRandomUUID (chunk_id ck) gen n")
  with gen have "i \<noteq> []" using orRandomUUID_nonempty by fastforce
  moreover from s have "resolveMessageContent (JStr s) = Inr (JStr s)"
    by (simp add: resolveMessageContent_def)
  ultimately show ?thesis using st ck i s
    by (simp add: handleLangGraphEvent_def handleLangGraphEvent_try_def
        handleChatModelStream_def handleChatModelStream_toolCall_def
        handleChatModelStream_text_def open_unit_def access_defs Let_def)
qed

lemma text_delta_continues:
  assumes st: "runId st \<noteq> []" "open_unit st = Some m" "is_text_unit m"
    and ev: "plain_text_delta ev s" and s: "s \<noteq> []"
  shows "handleLangGraphEvent conv gen ev st n =
           returns st n [TextMessageContent (msg_id m) (JStr s)]"
proof -
  from ev obtain ck where ck: "chunk ev = Some ck" "chunk_content ck = JStr s"
      "first_tool_call ck = None" "\<not> truthy (finish_reason ck)"
      "event ev = ''on_chat_model_stream''"
      "truthy (nullish (metadata_get ev ''copilotkit:emit-messages'') (JBool True))"
    by (auto simp: plain_text_delta_def flag_enabled_def nullish_def split: option.splits)
  from s have "resolveMessageContent (JStr s) = Inr (JStr s)"
    by (simp add: resolveMessageContent_def)
  then show ?thesis using st ck s
    by (simp add: handleLangGraphEvent_def handleLangGraphEvent_try_def
        handleChatModelStream_def handleChatModelStream_toolCall_def
        handleChatModelStream_text_def unit_defs access_defs Let_def)
qed

lemma generation_end_dispatch:
  assumes "runId st \<noteq> []" "event ev = ''on_chat_model_end''"
  shows "handleLangGraphEvent conv gen ev st n = handleChatModelEnd st n"
  using assms
  by (simp add: handleLangGraphEvent_def handleLangGraphEvent_try_def handleChatModelEnd_def
      returns_def Let_def)

section \<open>Scenarios\<close>

text \<open>
  C1. From a state whose run has no open unit, three token deltas with the plain string
  contents \<open>a\<close>, \<open>b\<close>, \<open>c\<close> (no tool-call descriptor, no finish marker, message
  emission enabled) and then a generation-end event emit exactly \<open>TextMessageStart\<close>,
  three \<open>TextMessageContent\<close> (\<open>a\<close>, \<open>b\<close>, \<open>c\<close>) and \<open>TextMessageEnd\<close>, in
  that order, all with one message id. Chunk ids, run ids of the events and the other
  metadata are arbitrary; \<open>randomUUID\<close> returns non-empty strings.
\<close>

theorem three_text_deltas_then_end:
  assumes gen: "\<forall>k. gen k \<noteq> []"
    and st: "runId st \<noteq> []" "open_unit st = None"
    and e1: "plain_text_delta e1 ''a''"
    and e2: "plain_text_delta e2 ''b''"
    and e3: "plain_text_delta e3 ''c''"
    and e4: "event e4 = ''on_chat_model_end''"
  shows "\<exists>messageId.
     emitted (for_await conv gen [e1, e2, e3, e4] failure st n) =
       [TextMessageStart messageId,
        TextMessageContent messageId (JStr ''a''),
        TextMessageContent messageId (JStr ''b''),
        TextMessageContent messageId (JStr ''c''),
        TextMessageEnd messageId]"
proof -
  obtain i n' where i: "i \<noteq> []"
    and r1: "handleLangGraphEvent conv gen e1 st n =
       returns (setMessageInProgress (runId st)
                  \<lparr>msg_id = i, toolCallId = None, toolCallName = None\<rparr> st) n'
         [TextMessageStart i, TextMessageContent i (JStr ''a'')]"
    using text_delta_opens[OF gen st e1, of conv n] by auto
  let ?m = "\<lparr>msg_id = i, toolCallId = None, toolCallName = None\<rparr>"
  let ?st = "setMessageInProgress (runId st) ?m st"
  have st': "runId ?st \<noteq> []" "open_unit ?st = Some ?m" "is_text_unit ?m"
    using st i by (simp_all add: unit_defs access_defs)
  have r2: "handleLangGraphEvent conv gen e2 ?st n' =
      returns ?st n' [TextMessageContent i (JStr ''b'')]"
    using text_delta_continues[OF st' e2, of conv gen n'] by simp
  have r3: "handleLangGraphEvent conv gen e3 ?st n' =
      returns ?st n' [TextMessageContent i (JStr ''c'')]"
    using text_delta_continues[OF st' e3, of conv gen n'] by simp
  have r4: "emitted (handleLangGraphEvent conv gen e4 ?st n') = [TextMessageEnd i]"
       "thrown (handleLangGraphEvent conv gen e4 ?st n') = None"
    using generation_end_dispatch[OF st'(1) e4, of conv gen n'] st'
    by (simp_all add: handleChatModelEnd_def unit_defs access_defs Let_def)
  show ?thesis
    by (rule exI[of _ i]) (simp add: r1 r2 r3 r4 returns_def Let_def)
qed

theorem three_text_deltas_then_end_witness:
  "(\<forall>k. uuid_seq k \<noteq> []) \<and> runId fresh_state \<noteq> [] \<and> open_unit fresh_state = None
   \<and> plain_text_delta (text_delta ''a'') ''a'' \<and> plain_text_delta (text_delta ''b'') ''b''
   \<and> plain_text_delta (text_delta ''c'') ''c'' \<and> event generation_end = ''on_chat_model_end''
   \<and> (\<exists>messageId.
     emitted (for_await sample_convert uuid_seq
        [text_delta ''a'', text_delta ''b'', text_delta ''c'', generation_end] None
        fresh_state 1) =
       [TextMessageStart messageId,
        TextMessageContent messageId (JStr ''a''),
        TextMessageContent messageId (JStr ''b''),
        TextMessageContent messageId (JStr ''c''),
        TextMessageEnd messageId])"
proof -
  have h: "\<forall>k. uuid_seq k \<noteq> []" "runId fresh_state \<noteq> []" "open_unit fresh_state = None"
    "plain_text_delta (text_delta ''a'') ''a''" "plain_text_delta (text_delta ''b'') ''b''"
    "plain_text_delta (text_delta ''c'') ''c''" "event generation_end = ''on_chat_model_end''"
    by (simp_all add: uuid_seq_def fresh_state_def createStreamState_def randomUUID_def
        open_unit_def plain_text_delta_def flag_enabled_def metadata_get_def text_delta_def
        first_tool_call_def generation_end_def)
  from three_text_deltas_then_end[OF h, of sample_convert None 1] h show ?thesis
    by blast
qed

lemma sink_events_trace: "sink_events (map Next out @ [Complete]) = out"
  by (induction out) (simp_all add: sink_events_def)

lemma createStreamState_wf:
  "\<forall>k. gen k \<noteq> [] \<Longrightarrow> wf_state (fst (createStreamState gen n)) \<and> \<not> text_open (fst (createStreamState gen n))"
  by (simp add: createStreamState_def randomUUID_def unit_defs)

text \<open>
  C5. In the events an invocation writes to the sink, two \<open>TextMessageStart\<close> never
  follow one another without a \<open>TextMessageEnd\<close> or a tool-call start between them.
  Equivalently, for one handled event: a \<open>TextMessageStart\<close> is emitted only when the
  run has no open unit or its open unit is a tool-call unit. (\<open>randomUUID\<close> returns
  non-empty strings.)
\<close>

theorem text_starts_separated:
  assumes gen: "\<forall>k. gen k \<noteq> []"
  shows "starts_separated False
           (sink_events (sink (processLangGraphStream conv gen n evs failure)))
         \<and> (wf_state st \<and> TextMessageStart i \<in> set (emitted (handleLangGraphEvent conv gen ev st k))
              \<longrightarrow> open_unit st = None \<or> (\<exists>u. open_unit st = Some u \<and> is_tool_call_unit u))"
proof (intro conjI impI)
  let ?st0 = "fst (createStreamState gen n)"
  let ?n0 = "snd (createStreamState gen n)"
  from createStreamState_wf[OF gen, of n]
  have wf: "wf_state ?st0" and cl: "\<not> text_open ?st0" by simp_all
  from for_await_separated[OF gen wf, of conv evs failure ?n0] cl
  show "starts_separated False
           (sink_events (sink (processLangGraphStream conv gen n evs failure)))"
    by (simp add: processLangGraphStream_def sink_events_trace Let_def case_prod_beta)
next
  assume a: "wf_state st \<and> TextMessageStart i \<in> set (emitted (handleLangGraphEvent conv gen ev st k))"
  then have "step_ok st (handleLangGraphEvent conv gen ev st k)"
    using dispatch_step[OF gen] by blast
  with a have "\<not> text_open st" by (auto simp: step_ok_def)
  with a show "open_unit st = None \<or> (\<exists>u. open_unit st = Some u \<and> is_tool_call_unit u)"
    by (auto simp: wf_state_def text_open_def is_text_unit_def split: option.splits)
qed

theorem text_starts_separated_witness:
  "(\<forall>k. uuid_seq k \<noteq> [])
   \<and> starts_separated False
       (sink_events (sink (processLangGraphStream sample_convert uuid_seq 0
          [text_delta ''a'', generation_end, text_delta ''b''] None)))
   \<and> wf_state fresh_state
   \<and> TextMessageStart ''uuid-1''
       \<in> set (emitted (handleLangGraphEvent sample_convert uuid_seq (text_delta ''a'') fresh_state 1))
   \<and> open_unit fresh_state = None"
proof -
  have h: "\<forall>k. uuid_seq k \<noteq> []" by (simp add: uuid_seq_def)
  have w: "wf_state fresh_state" "open_unit fresh_state = None"
    by (simp_all add: fresh_state_def createStreamState_def randomUUID_def unit_defs uuid_seq_def)
  have e: "TextMessageStart ''uuid-1''
       \<in> set (emitted (handleLangGraphEvent sample_convert uuid_seq (text_delta ''a'') fresh_state 1))"
    by (simp add: handleLangGraphEvent_def handleLangGraphEvent_try_def
        handleChatModelStream_def handleChatModelStream_toolCall_def first_tool_call_def
        handleChatModelStream_text_def resolveMessageContent_def text_delta_def fresh_state_def
        createStreamState_def randomUUID_def orRandomUUID_def metadata_get_def nullish_def
        access_defs uuid_seq_def digits.simps digit_char_def Let_def)
  from text_starts_separated[OF h, of sample_convert 0
      "[text_delta ''a'', generation_end, text_delta ''b'']" None fresh_state "''uuid-1''"
      "text_delta ''a''" 1] h w e
  show ?thesis by blast
qed

text \<open>
  C8. \<open>handleChatModelEnd\<close> emits \<open>ActionExecutionEnd\<close> with the call id when the
  open unit of the run is a tool-call unit, \<open>TextMessageEnd\<close> with the unit's id when it
  is a text unit, and nothing when no unit is open; it never throws, and in every case the
  entry of the run is gone from the table afterwards (the other entries are kept). The
  dispatcher sends a generation-end event to it.
\<close>

theorem generation_end_closes_unit:
  "(\<forall>m c. open_unit st = Some m \<and> toolCallId m = Some c \<and> c \<noteq> [] \<longrightarrow>
        emitted (handleChatModelEnd st n) = [ActionExecutionEnd c])
   \<and> (\<forall>m. open_unit st = Some m \<and> is_text_unit m \<longrightarrow>
        emitted (handleChatModelEnd st n) = [TextMessageEnd (msg_id m)])
   \<and> (open_unit st = None \<longrightarrow> emitted (handleChatModelEnd st n) = [])
   \<and> open_unit (state (handleChatModelEnd st n)) = None
   \<and> runId (state (handleChatModelEnd st n)) = runId st
   \<and> (\<forall>r. r \<noteq> runId st \<longrightarrow>
        messagesInProgress (state (handleChatModelEnd st n)) r = messagesInProgress st r)
   \<and> thrown (handleChatModelEnd st n) = None
   \<and> (event ev = ''on_chat_model_end'' \<and> runId st \<noteq> [] \<longrightarrow>
        handleLangGraphEvent conv gen ev st n = handleChatModelEnd st n)"
  by (auto simp: handleChatModelEnd_def unit_defs access_defs Let_def generation_end_dispatch)


theorem generation_end_closes_unit_witness:
  "open_unit (with_unit tool_unit) = Some tool_unit \<and> toolCallId tool_unit = Some ''call_1''
   \<and> emitted (handleChatModelEnd (with_unit tool_unit) 1) = [ActionExecutionEnd ''call_1'']
   \<and> open_unit (with_unit text_unit) = Some text_unit \<and> is_text_unit text_unit
   \<and> emitted (handleChatModelEnd (with_unit text_unit) 1) = [TextMessageEnd ''msg_1'']
   \<and> open_unit fresh_state = None \<and> emitted (handleChatModelEnd fresh_state 1) = []
   \<and> ''run-2'' \<noteq> runId (with_unit tool_unit)
   \<and> messagesInProgress (state (handleChatModelEnd (with_unit tool_unit) 1)) ''run-2'' =
       messagesInProgress (with_unit tool_unit) ''run-2''
   \<and> event generation_end = ''on_chat_model_end'' \<and> runId fresh_state \<noteq> []
   \<and> handleLangGraphEvent sample_convert uuid_seq generation_end fresh_state 1 =
       handleChatModelEnd fresh_state 1"
  using generation_end_closes_unit[of "with_unit tool_unit" 1 generation_end sample_convert uuid_seq]
    generation_end_closes_unit[of "with_unit text_unit" 1 generation_end sample_convert uuid_seq]
    generation_end_closes_unit[of fresh_state 1 generation_end sample_convert uuid_seq]
  by (simp add: with_unit_def tool_unit_def text_unit_def fresh_state_def createStreamState_def
      randomUUID_def uuid_seq_def unit_defs setMessageInProgress_def truthy_str_def
      generation_end_def)

section \<open>Suppression, kind change, errors and completion\<close>

lemmas sample_defs = uuid_seq_def sample_convert_def text_delta_def generation_end_def
  fresh_state_def tool_delta_def tool_unit_def text_unit_def with_unit_def search_call_def
  search_call_no_id_def cats_args_def unnamed_cats_args_def bigint_args_def text_and_args_delta_def
  finished_text_delta_def suppressed_tool_delta_def flags_true_def

lemmas run_defs = handleLangGraphEvent_def handleLangGraphEvent_try_def
  handleChatModelStream_def handleChatModelStream_toolCall_def handleChatModelStream_text_def
  handleChatModelEnd_def handleChainStart_def first_tool_call_def resolveMessageContent_def
  createStreamState_def randomUUID_def orRandomUUID_def metadata_get_def nullish_def
  JSON_stringify_def json_quote_def json_quote_char_def digits.simps digit_char_def
  processLangGraphStream_def access_defs Let_def


lemma metadata_flags_true [simp]:
  "metadata_get (ev\<lparr>metadata := Some flags_true\<rparr>) ''copilotkit:emit-messages'' = JBool True"
  "metadata_get (ev\<lparr>metadata := Some flags_true\<rparr>) ''copilotkit:emit-tool-calls'' = JBool True"
  by (simp_all add: metadata_get_def flags_true_def)







text \<open>
  C10 (as amended). When the open unit of the run is a tool-call unit and a token delta
  arrives that has resolvable text content, no finish marker and no streamed tool-call
  arguments (message emission enabled), \<open>handleChatModelStream\<close> emits
  \<open>TextMessageStart\<close> and the text content, and overwrites the entry of the run with a
  new text unit. It emits no \<open>ActionExecutionEnd\<close> for the superseded tool-call unit,
  and the generation end that follows closes the text unit only.
\<close>

theorem text_delta_supersedes_tool_call:
  assumes gen: "\<forall>k. gen k \<noteq> []"
    and st: "open_unit st = Some m" "is_tool_call_unit m" "msg_id m \<noteq> []"
    and ev: "chunk ev = Some ck" "\<not> truthy (finish_reason ck)" "no_streamed_args ev ck"
      "flag_enabled ev ''copilotkit:emit-messages''"
    and c: "resolveMessageContent (chunk_content ck) = Inr c" "truthy c"
  shows "\<exists>i. emitted (handleChatModelStream gen ev st n) =
              [TextMessageStart i, TextMessageContent i c]
     \<and> open_unit (state (handleChatModelStream gen ev st n)) =
           Some \<lparr>msg_id = i, toolCallId = None, toolCallName = None\<rparr>
     \<and> thrown (handleChatModelStream gen ev st n) = None
     \<and> emitted (handleChatModelEnd (state (handleChatModelStream gen ev st n))
                  (drawn (handleChatModelStream gen ev st n))) = [TextMessageEnd i]"
proof -
  have tc: "handleChatModelStream_toolCall gen ck (first_tool_call ck)
        (nullish (metadata_get ev ''copilotkit:emit-tool-calls'') (JBool True))
        (Some m) True st n = None"
    using ev(3) st(2)
    by (auto simp: handleChatModelStream_toolCall_def no_streamed_args_def nullish_def
        split: option.splits)
  obtain i n' where i: "orRandomUUID (chunk_id ck) gen n = (i, n')"
    by (cases "orRandomUUID (chunk_id ck) gen n")
  with gen have ne: "i \<noteq> []" using orRandomUUID_nonempty by fastforce
  have fl: "truthy (nullish (metadata_get ev ''copilotkit:emit-messages'') (JBool True))"
    using ev(4) by (auto simp: flag_enabled_def nullish_def)
  have "handleChatModelStream gen ev st n =
      returns (setMessageInProgress (runId st)
                 \<lparr>msg_id = i, toolCallId = None, toolCallName = None\<rparr> st) n'
        [TextMessageStart i, TextMessageContent i c]"
    using st ev(1,2) tc c i ne fl
    by (simp add: handleChatModelStream_def handleChatModelStream_text_def unit_defs
        access_defs Let_def)
  then show ?thesis using ne
    by (simp add: handleChatModelEnd_def unit_defs access_defs Let_def)
qed

theorem text_delta_supersedes_tool_call_witness:
  "(\<forall>k. uuid_seq k \<noteq> []) \<and> open_unit (with_unit tool_unit) = Some tool_unit
   \<and> is_tool_call_unit tool_unit \<and> msg_id tool_unit \<noteq> []
   \<and> flag_enabled (text_delta ''hi'') ''copilotkit:emit-messages''
   \<and> resolveMessageContent (JStr ''hi'') = Inr (JStr ''hi'') \<and> truthy (JStr ''hi'')
   \<and> (\<exists>i. emitted (handleChatModelStream uuid_seq (text_delta ''hi'') (with_unit tool_unit) 1) =
              [TextMessageStart i, TextMessageContent i (JStr ''hi'')]
     \<and> open_unit (state (handleChatModelStream uuid_seq (text_delta ''hi'') (with_unit tool_unit) 1)) =
           Some \<lparr>msg_id = i, toolCallId = None, toolCallName = None\<rparr>
     \<and> thrown (handleChatModelStream uuid_seq (text_delta ''hi'') (with_unit tool_unit) 1) = None
     \<and> emitted (handleChatModelEnd
                  (state (handleChatModelStream uuid_seq (text_delta ''hi'') (with_unit tool_unit) 1))
                  (drawn (handleChatModelStream uuid_seq (text_delta ''hi'') (with_unit tool_unit) 1)))
         = [TextMessageEnd i])"
proof -
  have h: "\<forall>k. uuid_seq k \<noteq> []" "open_unit (with_unit tool_unit) = Some tool_unit"
    "is_tool_call_unit tool_unit" "msg_id tool_unit \<noteq> []"
    "chunk (text_delta ''hi'') = Some \<lparr>chunk_id = None, chunk_content = JStr ''hi'',
        tool_calls = None, finish_reason = JUndefined\<rparr>"
    "\<not> truthy (finish_reason \<lparr>chunk_id = None, chunk_content = JStr ''hi'',
        tool_calls = None, finish_reason = JUndefined\<rparr>)"
    "no_streamed_args (text_delta ''hi'') \<lparr>chunk_id = None, chunk_content = JStr ''hi'',
        tool_calls = None, finish_reason = JUndefined\<rparr>"
    "flag_enabled (text_delta ''hi'') ''copilotkit:emit-messages''"
    "resolveMessageContent (chunk_content \<lparr>chunk_id = None, chunk_content = JStr ''hi'',
        tool_calls = None, finish_reason = JUndefined\<rparr>) = Inr (JStr ''hi'')"
    "truthy (JStr ''hi'')"
    by (simp_all add: sample_defs unit_defs run_defs no_streamed_args_def flag_enabled_def)
  from text_delta_supersedes_tool_call[OF h, of 1] h show ?thesis by simp
qed

text \<open>
  C10, counterexample. With a tool-call unit open, a delta with the text content \<open>hi\<close>
  and message emission enabled emits no \<open>TextMessageStart\<close> and leaves the unit in
  place when it also carries a finish marker (nothing is emitted) or tool-call arguments
  (they are emitted as \<open>ActionExecutionArgs\<close> and the text is dropped).
\<close>

theorem text_after_tool_call_counterexample:
  \<open>open_unit (with_unit tool_unit) = Some tool_unit \<and> is_tool_call_unit tool_unit
   \<and> resolveMessageContent (JStr ''hi'') = Inr (JStr ''hi'')
   \<and> flag_enabled finished_text_delta ''copilotkit:emit-messages''
   \<and> flag_enabled text_and_args_delta ''copilotkit:emit-messages''
   \<and> emitted (handleChatModelStream uuid_seq finished_text_delta (with_unit tool_unit) 1) = []
   \<and> open_unit (state (handleChatModelStream uuid_seq finished_text_delta (with_unit tool_unit) 1))
       = Some tool_unit
   \<and> emitted (handleChatModelStream uuid_seq text_and_args_delta (with_unit tool_unit) 1) =
       [ActionExecutionArgs ''call_1'' (JStr ''{"query":"cats"}'')]
   \<and> open_unit (state (handleChatModelStream uuid_seq text_and_args_delta (with_unit tool_unit) 1))
       = Some tool_unit\<close>
  by (simp add: sample_defs unit_defs run_defs flag_enabled_def)


lemma stream_thrown_emits_nothing:
  assumes "thrown (handleChatModelStream gen ev st n) = Some e"
  shows "emitted (handleChatModelStream gen ev st n) = []"
proof (cases "chunk ev")
  case None
  with assms show ?thesis by (simp add: handleChatModelStream_def returns_def)
next
  case (Some ck)
  obtain c where c: "resolveMessageContent (chunk_content ck) = Inr c"
    using resolveMessageContent_returns by blast
  from assms Some c show ?thesis
    by (auto simp: handleChatModelStream_def handleChatModelStream_toolCall_def
        handleChatModelStream_text_def returns_def throws_def Let_def
        split: option.splits if_splits prod.splits sum.splits)
qed

lemma try_thrown_emits_nothing:
  assumes "thrown (handleLangGraphEvent_try gen ev st n) = Some e"
  shows "emitted (handleLangGraphEvent_try gen ev st n) = []"
  using assms stream_thrown_emits_nothing
  by (auto simp: handleLangGraphEvent_try_def handleChatModelEnd_def handleChainStart_def
      returns_def Let_def split: if_splits)

lemma for_await_thrown: "thrown (for_await conv gen evs failure st n) = failure"
proof (induction evs arbitrary: st n)
  case Nil
  show ?case by simp
next
  case (Cons ev evs)
  have "thrown (handleLangGraphEvent conv gen ev st n) = None"
    by (rule handleLangGraphEvent_returns)
  with Cons show ?case by (simp add: Let_def)
qed

text \<open>
  C7. When the handler of an event throws, the dispatcher writes exactly one event to the
  sink for it, a \<open>RunError\<close> with the message of the converted error and the code
  \<open>LANGGRAPH_EVENT_ERROR\<close>, and returns normally; the loop of the driver goes on with
  the events that follow and reaches the end of the source.
\<close>

theorem handler_exception_becomes_RunError:
  assumes raised: "thrown (handleLangGraphEvent_try gen ev st n) = Some e"
  shows "emitted (handleLangGraphEvent conv gen ev st n) =
           [RunError (message (conv e ''LangGraph'')) ''LANGGRAPH_EVENT_ERROR'']
     \<and> thrown (handleLangGraphEvent conv gen ev st n) = None
     \<and> emitted (for_await conv gen (ev # rest) failure st n) =
           RunError (message (conv e ''LangGraph'')) ''LANGGRAPH_EVENT_ERROR'' #
           emitted (for_await conv gen rest failure
                      (state (handleLangGraphEvent conv gen ev st n))
                      (drawn (handleLangGraphEvent conv gen ev st n)))
     \<and> thrown (for_await conv gen (ev # rest) failure st n) = failure"
proof -
  from raised have nothing: "emitted (handleLangGraphEvent_try gen ev st n) = []"
    by (rule try_thrown_emits_nothing)
  with raised have one: "emitted (handleLangGraphEvent conv gen ev st n) =
           [RunError (message (conv e ''LangGraph'')) ''LANGGRAPH_EVENT_ERROR'']"
    by (simp add: handleLangGraphEvent_def Let_def)
  have caught: "thrown (handleLangGraphEvent conv gen ev st n) = None"
    by (rule handleLangGraphEvent_returns)
  from one caught show ?thesis
    by (simp add: Let_def for_await_thrown)
qed

theorem handler_exception_becomes_RunError_witness:
  "thrown (handleLangGraphEvent_try uuid_seq (tool_delta bigint_args None) (with_unit tool_unit) 1)
     = Some (JsError ''TypeError'' ''Do not know how to serialize a BigInt'')
   \<and> emitted (handleLangGraphEvent sample_convert uuid_seq (tool_delta bigint_args None)
                 (with_unit tool_unit) 1) =
       [RunError ''LangGraph: Do not know how to serialize a BigInt'' ''LANGGRAPH_EVENT_ERROR'']
   \<and> emitted (for_await sample_convert uuid_seq [tool_delta bigint_args None, generation_end]
                 None (with_unit tool_unit) 1) =
       [RunError ''LangGraph: Do not know how to serialize a BigInt'' ''LANGGRAPH_EVENT_ERROR'',
        ActionExecutionEnd ''call_1'']"
proof -
  have h: "thrown (handleLangGraphEvent_try uuid_seq (tool_delta bigint_args None)
                     (with_unit tool_unit) 1)
     = Some (JsError ''TypeError'' ''Do not know how to serialize a BigInt'')"
    by (simp add: sample_defs run_defs)
  have s: "state (handleLangGraphEvent sample_convert uuid_seq (tool_delta bigint_args None)
                 (with_unit tool_unit) 1) = with_unit tool_unit"
    by (simp add: sample_defs run_defs)
  have e: "emitted (handleLangGraphEvent sample_convert uuid_seq generation_end
                 (with_unit tool_unit) n) = [ActionExecutionEnd ''call_1'']"
     "thrown (handleLangGraphEvent sample_convert uuid_seq generation_end
                 (with_unit tool_unit) n) = None" for n
    by (simp_all add: sample_defs run_defs)
  from handler_exception_becomes_RunError[OF h, of sample_convert "[generation_end]" None] h s e
  show ?thesis by (simp add: sample_convert_def Let_def)
qed

lemma count_list_Next: "count_list (map Next out) Complete = 0"
  by (induction out) simp_all

text \<open>
  C9. Whatever the source stream yields and however it ends, the sink of an invocation
  receives the events followed by exactly one completion signal, the last thing it
  receives. The promise is rejected exactly when the source stream fails, with the
  converted error, and by then the sink holds its completion signal.
\<close>

theorem sink_completed_exactly_once:
  "count_list (sink (processLangGraphStream conv gen n evs failure)) Complete = 1
   \<and> last (sink (processLangGraphStream conv gen n evs failure)) = Complete
   \<and> sink (processLangGraphStream conv gen n evs failure) =
       map Next (sink_events (sink (processLangGraphStream conv gen n evs failure))) @ [Complete]
   \<and> rejected (processLangGraphStream conv gen n evs failure) =
       (case failure of None \<Rightarrow> None | Some e \<Rightarrow> Some (conv e ''LangGraph''))"
  by (simp add: processLangGraphStream_def case_prod_beta Let_def for_await_thrown
      count_list_Next sink_events_trace)

theorem sink_completed_exactly_once_witness:
  "sink (processLangGraphStream sample_convert uuid_seq 0 [text_delta ''a'']
           (Some (JsError ''Error'' ''stream failed''))) =
     [Next (TextMessageStart ''uuid-1''), Next (TextMessageContent ''uuid-1'' (JStr ''a'')),
      Complete]
   \<and> count_list (sink (processLangGraphStream sample_convert uuid_seq 0 [text_delta ''a'']
           (Some (JsError ''Error'' ''stream failed'')))) Complete = 1
   \<and> rejected (processLangGraphStream sample_convert uuid_seq 0 [text_delta ''a'']
           (Some (JsError ''Error'' ''stream failed''))) =
       Some (JsError ''Error'' ''LangGraph: stream failed'')
   \<and> sink (processLangGraphStream sample_convert uuid_seq 0 [] None) = [Complete]
   \<and> rejected (processLangGraphStream sample_convert uuid_seq 0 [] None) = None"
proof -
  have s: "sink (processLangGraphStream sample_convert uuid_seq 0 [text_delta ''a'']
           (Some (JsError ''Error'' ''stream failed''))) =
     [Next (TextMessageStart ''uuid-1''), Next (TextMessageContent ''uuid-1'' (JStr ''a'')),
      Complete]"
    "sink (processLangGraphStream sample_convert uuid_seq 0 [] None) = [Complete]"
    by (simp_all add: sample_defs run_defs)
  from sink_completed_exactly_once[of sample_convert uuid_seq 0 "[text_delta ''a'']"
        "Some (JsError ''Error'' ''stream failed'')"]
    sink_completed_exactly_once[of sample_convert uuid_seq 0 "[]" None] s
  show ?thesis by (simp add: sample_convert_def)
qed

text \<open>
  C2, at the failing input. A tool-call descriptor with a name and no id: the three
  \<open>toolCall.id || randomUUID()\<close> and \<open>chunk.id || randomUUID()\<close> of the start
  branch draw three identifiers. \<open>ActionExecutionStart\<close> carries the first, the table
  records the third, and the arguments and the end are emitted under the third.
\<close>

theorem generated_call_id_mismatch:
  \<open>open_unit (state (handleLangGraphEvent sample_convert uuid_seq
        (tool_delta search_call_no_id None) fresh_state 1)) =
     Some \<lparr>msg_id = ''uuid-2'', toolCallId = Some ''uuid-3'', toolCallName = Some ''search''\<rparr>
   \<and> sink (processLangGraphStream sample_convert uuid_seq 0
        [tool_delta search_call_no_id None, tool_delta unnamed_cats_args None, generation_end]
        None) =
     [Next (ActionExecutionStart ''uuid-1'' ''search'' None),
      Next (ActionExecutionArgs ''uuid-3'' (JStr ''{"query":"cats"}'')),
      Next (ActionExecutionEnd ''uuid-3''),
      Complete]\<close>
  by (simp add: sample_defs run_defs open_unit_def)

text \<open>With the call id supplied by the engine the three events share it.\<close>

lemma supplied_call_id_scenario:
  \<open>sink (processLangGraphStream sample_convert uuid_seq 0
        [tool_delta search_call None, tool_delta cats_args None, generation_end] None) =
     [Next (ActionExecutionStart ''call_1'' ''search'' None),
      Next (ActionExecutionArgs ''call_1'' (JStr ''{"query":"cats"}'')),
      Next (ActionExecutionEnd ''call_1''),
      Complete]\<close>
  by (simp add: sample_defs run_defs open_unit_def)

text \<open>
  In general: when the descriptor has a name and no id, the start event carries the
  identifier drawn first and the table records one drawn after it.
\<close>

lemma generated_call_id_general:
  assumes "open_unit st = None" "chunk ev = Some ck" "\<not> truthy (finish_reason ck)"
    and "first_tool_call ck = Some tc" "tc_name tc = Some nm" "nm \<noteq> []"
    and "\<not> truthy_str (tc_id tc)" "flag_enabled ev ''copilotkit:emit-tool-calls''"
  shows "emitted (handleChatModelStream gen ev st n) =
           [ActionExecutionStart (gen n) nm (chunk_id ck)]
     \<and> (\<exists>m. open_unit (state (handleChatModelStream gen ev st n)) = Some m
            \<and> toolCallId m = Some (gen (if truthy_str (chunk_id ck) then Suc n else Suc (Suc n))))"
  using assms
  by (auto simp: handleChatModelStream_def handleChatModelStream_toolCall_def flag_enabled_def
      nullish_def orRandomUUID_def randomUUID_def unit_defs access_defs Let_def
      split: option.splits)

end
